theory Spec2Isabelle
  imports Main
begin

section \<open>Exceptions, events and the state of a run\<close>

text \<open>
  The module \<^verbatim>\<open>src/templar/autoupdate.py\<close> orchestrates git, a dependency tool and
  the operating system. Its own code distinguishes exactly two classes of ordinary
  exception: \<^verbatim>\<open>git.GitCommandError\<close> and every other subclass of \<^verbatim>\<open>Exception\<close>.
  An exception carries its class name and message.
\<close>

datatype exc = GitCommandError string | OtherException string string

text \<open>
  What ends a call abnormally: an ordinary exception (caught by \<^verbatim>\<open>except Exception\<close>),
  \<^verbatim>\<open>SystemExit\<close> raised by \<^verbatim>\<open>sys.exit(code)\<close> (a \<^verbatim>\<open>BaseException\<close> that
  \<^verbatim>\<open>except Exception\<close> does not catch), or the successful \<^verbatim>\<open>os.execv\<close>, after which
  no statement of this program runs any more.
\<close>

datatype signal = Exception exc | SystemExit int | ProcessReplaced

datatype level = Debug | Info | Error

text \<open>
  Everything the program does to the outside is recorded, in order: the messages handed
  to the logger and the commands issued to git, to subprocesses and to the operating system.
\<close>

datatype event =
    Log level string
  | LogException string exc
  | Fetch nat
  | Pull string bool "nat option"
  | GitReset string
  | GitCheckout string string
  | IndexCommit string
  | CheckCall "string list" "nat option"
  | Sleep int
  | Execv string "string list"

record 'w st =
  world :: 'w
  trace :: "event list"

type_synonym ('a, 'w) prog = "'w st \<Rightarrow> (signal + 'a) \<times> 'w st"

definition ret :: "'a \<Rightarrow> ('a, 'w) prog" where
  "ret x s = (Inr x, s)"

definition raise :: "signal \<Rightarrow> ('a, 'w) prog" where
  "raise e s = (Inl e, s)"

definition andthen :: "('a, 'w) prog \<Rightarrow> ('a \<Rightarrow> ('b, 'w) prog) \<Rightarrow> ('b, 'w) prog" where
  "andthen m f s = (case m s of (Inl e, s') \<Rightarrow> (Inl e, s') | (Inr x, s') \<Rightarrow> f x s')"

text \<open>
  \<^verbatim>\<open>try: m except C as e: h\<close> for a class \<^verbatim>\<open>C\<close> of ordinary exceptions:
  \<^verbatim>\<open>SystemExit\<close> and the replaced process pass through.
\<close>

definition try_except ::
  "('a, 'w) prog \<Rightarrow> (exc \<Rightarrow> bool) \<Rightarrow> (exc \<Rightarrow> ('a, 'w) prog) \<Rightarrow> ('a, 'w) prog" where
  "try_except m catches h s =
     (case m s of
        (Inl (Exception e), s') \<Rightarrow> if catches e then h e s' else (Inl (Exception e), s')
      | (Inl (SystemExit c), s') \<Rightarrow> (Inl (SystemExit c), s')
      | (Inl ProcessReplaced, s') \<Rightarrow> (Inl ProcessReplaced, s')
      | (Inr x, s') \<Rightarrow> (Inr x, s'))"

definition any_Exception :: "exc \<Rightarrow> bool" where
  "any_Exception e = True"

fun is_GitCommandError :: "exc \<Rightarrow> bool" where
  "is_GitCommandError (GitCommandError m) = True"
| "is_GitCommandError (OtherException c m) = False"

fun exc_str :: "exc \<Rightarrow> string" where
  "exc_str (GitCommandError m) = m"
| "exc_str (OtherException c m) = m"

definition emit :: "event \<Rightarrow> (unit, 'w) prog" where
  "emit ev s = (Inr (), s\<lparr>trace := trace s @ [ev]\<rparr>)"

text \<open>An external call that only reads the world: it returns a value or raises.\<close>

definition query :: "('w \<Rightarrow> exc + 'a) \<Rightarrow> ('a, 'w) prog" where
  "query f s = (case f (world s) of Inl e \<Rightarrow> (Inl (Exception e), s) | Inr x \<Rightarrow> (Inr x, s))"

text \<open>
  An external call that may change the world: the command is recorded when it is issued,
  and the world it leaves behind is kept also when the call raises.
\<close>

definition command :: "event \<Rightarrow> ('w \<Rightarrow> (exc + 'a) \<times> 'w) \<Rightarrow> ('a, 'w) prog" where
  "command ev f s =
     (case f (world s) of
        (Inl e, w') \<Rightarrow> (Inl (Exception e), \<lparr>world = w', trace = trace s @ [ev]\<rparr>)
      | (Inr x, w') \<Rightarrow> (Inr x, \<lparr>world = w', trace = trace s @ [ev]\<rparr>))"

definition lift_pure :: "exc + 'a \<Rightarrow> ('a, 'w) prog" where
  "lift_pure r s = (case r of Inl e \<Rightarrow> (Inl (Exception e), s) | Inr x \<Rightarrow> (Inr x, s))"

section \<open>The string operations of Python that the module uses\<close>

text \<open>\<^verbatim>\<open>s.split(c)\<close> for a one-character separator: never empty, one more piece than separators.\<close>

fun split_on :: "char \<Rightarrow> string \<Rightarrow> string list" where
  "split_on c [] = [[]]"
| "split_on c (x # xs) =
     (if x = c then [] # split_on c xs
      else (case split_on c xs of [] \<Rightarrow> [[x]] | y # ys \<Rightarrow> (x # y) # ys))"

definition startswith :: "string \<Rightarrow> string \<Rightarrow> bool" where
  "startswith s p = (take (length p) s = p)"

text \<open>
  \<^verbatim>\<open>str.isspace\<close> on the code points below 256: tab to carriage return, the four
  separators 28 to 31, the space, NEL and the no-break space.
\<close>

definition is_space :: "char \<Rightarrow> bool" where
  "is_space c = (let n = (of_char c :: nat) in
     (9 \<le> n \<and> n \<le> 13) \<or> (28 \<le> n \<and> n \<le> 32) \<or> n = 133 \<or> n = 160)"

definition strip_with :: "(char \<Rightarrow> bool) \<Rightarrow> string \<Rightarrow> string" where
  "strip_with P s = rev (dropWhile P (rev (dropWhile P s)))"

text \<open>\<^verbatim>\<open>s.strip()\<close> and \<^verbatim>\<open>s.strip(' "')\<close>.\<close>

definition strip :: "string \<Rightarrow> string" where
  "strip s = strip_with is_space s"

definition strip_space_quote :: "string \<Rightarrow> string" where
  "strip_space_quote s = strip_with (\<lambda>c. c = CHR '' '' \<or> c = CHR 0x22) s"

section \<open>Versions\<close>

text \<open>
  Modelled from the spec: \<^verbatim>\<open>packaging.version\<close> (\<^verbatim>\<open>version.parse\<close> and the order of
  the objects it returns) is an imported library and not part of the source. The spec's
  data model gives it: "SemanticVersion: ordered triple (major, minor, patch) plus
  optional pre-release tag; total order defined by standard semantic-versioning
  precedence. Parsed from a bare string; invalid strings produce a parse failure."
\<close>

datatype prerelease_id = Numeric nat | Alphanumeric string

datatype SemanticVersion =
  SemanticVersion (major: nat) (minor: nat) (patch: nat) (prerelease: "prerelease_id list")

definition is_digit :: "char \<Rightarrow> bool" where
  "is_digit c = (48 \<le> (of_char c :: nat) \<and> (of_char c :: nat) \<le> 57)"

definition is_ident_char :: "char \<Rightarrow> bool" where
  "is_ident_char c = (let n = (of_char c :: nat) in
     (48 \<le> n \<and> n \<le> 57) \<or> (65 \<le> n \<and> n \<le> 90) \<or> (97 \<le> n \<and> n \<le> 122) \<or> n = 45)"

definition nat_of_digits :: "string \<Rightarrow> nat" where
  "nat_of_digits s = foldl (\<lambda>n c. 10 * n + ((of_char c :: nat) - 48)) 0 s"

text \<open>A numeric field: digits only, not empty, no leading zero.\<close>

definition parse_numeric :: "string \<Rightarrow> nat option" where
  "parse_numeric s =
     (if s \<noteq> [] \<and> list_all is_digit s \<and> (s = ''0'' \<or> take 1 s \<noteq> ''0'')
      then Some (nat_of_digits s) else None)"

definition parse_identifier :: "string \<Rightarrow> prerelease_id option" where
  "parse_identifier s =
     (if s = [] \<or> \<not> list_all is_ident_char s then None
      else if list_all is_digit s then map_option Numeric (parse_numeric s)
      else Some (Alphanumeric s))"

fun parse_identifiers :: "string list \<Rightarrow> prerelease_id list option" where
  "parse_identifiers [] = Some []"
| "parse_identifiers (x # xs) =
     (case parse_identifier x of
        None \<Rightarrow> None
      | Some i \<Rightarrow> (case parse_identifiers xs of None \<Rightarrow> None | Some is \<Rightarrow> Some (i # is)))"

definition parse_semver :: "string \<Rightarrow> SemanticVersion option" where
  "parse_semver s =
     (let core = takeWhile (\<lambda>c. c \<noteq> CHR ''-'') s;
          rest = dropWhile (\<lambda>c. c \<noteq> CHR ''-'') s;
          pre = (if rest = [] then Some [] else parse_identifiers (split_on CHR ''.'' (drop 1 rest)))
      in case split_on CHR ''.'' core of
           [a, b, c] \<Rightarrow>
             (case (parse_numeric a, parse_numeric b, parse_numeric c, pre) of
                (Some x, Some y, Some z, Some p) \<Rightarrow> Some (SemanticVersion x y z p)
              | _ \<Rightarrow> None)
         | _ \<Rightarrow> None)"

text \<open>\<^verbatim>\<open>version.parse(v)\<close>: the version, or \<^verbatim>\<open>InvalidVersion\<close> raised.\<close>

definition version_parse :: "string \<Rightarrow> exc + SemanticVersion" where
  "version_parse v =
     (case parse_semver v of
        None \<Rightarrow> Inl (OtherException ''InvalidVersion'' (''Invalid version: '' @ v))
      | Some sv \<Rightarrow> Inr sv)"

fun string_less :: "string \<Rightarrow> string \<Rightarrow> bool" where
  "string_less [] [] = False"
| "string_less [] (y # ys) = True"
| "string_less (x # xs) [] = False"
| "string_less (x # xs) (y # ys) =
     ((of_char x :: nat) < of_char y \<or> (x = y \<and> string_less xs ys))"

fun identifier_less :: "prerelease_id \<Rightarrow> prerelease_id \<Rightarrow> bool" where
  "identifier_less (Numeric a) (Numeric b) = (a < b)"
| "identifier_less (Numeric a) (Alphanumeric t) = True"
| "identifier_less (Alphanumeric s) (Numeric b) = False"
| "identifier_less (Alphanumeric s) (Alphanumeric t) = string_less s t"

fun prerelease_less :: "prerelease_id list \<Rightarrow> prerelease_id list \<Rightarrow> bool" where
  "prerelease_less [] [] = False"
| "prerelease_less [] (y # ys) = True"
| "prerelease_less (x # xs) [] = False"
| "prerelease_less (x # xs) (y # ys) =
     (identifier_less x y \<or> (x = y \<and> prerelease_less xs ys))"

text \<open>
  Precedence: major, minor, patch numerically; then a pre-release version is lower than
  the release, and two pre-release tags compare field by field.
\<close>

definition semver_less :: "SemanticVersion \<Rightarrow> SemanticVersion \<Rightarrow> bool" where
  "semver_less a b =
     (major a < major b \<or> (major a = major b \<and>
       (minor a < minor b \<or> (minor a = minor b \<and>
         (patch a < patch b \<or> (patch a = patch b \<and>
           ((prerelease a \<noteq> [] \<and> prerelease b = []) \<or>
            (prerelease a \<noteq> [] \<and> prerelease b \<noteq> [] \<and>
               prerelease_less (prerelease a) (prerelease b)))))))))"

text \<open>\<^verbatim>\<open>a > b\<close> on parsed versions.\<close>

definition version_gt :: "SemanticVersion \<Rightarrow> SemanticVersion \<Rightarrow> bool" where
  "version_gt a b = semver_less b a"

section \<open>The environment of the daemon\<close>

text \<open>
  The repository, the network, the installed tools and the process environment are the
  world \<open>'w\<close>; what each external call does in it are parameters. A read returns or
  raises; a command also yields the world it leaves. These calls fail with ordinary
  exceptions only.
\<close>

record 'w system =
  open_repo :: "'w \<Rightarrow> exc + unit"
  remotes_origin :: "'w \<Rightarrow> exc + unit"
  fetch :: "nat \<Rightarrow> 'w \<Rightarrow> (exc + unit) \<times> 'w"
  remote_blob :: "string \<Rightarrow> string list \<Rightarrow> 'w \<Rightarrow> exc + string"
  reload_version :: "'w \<Rightarrow> exc + string"
  imported_version :: string
  is_dirty :: "'w \<Rightarrow> exc + bool"
  pull :: "string \<Rightarrow> bool \<Rightarrow> nat option \<Rightarrow> 'w \<Rightarrow> (exc + unit) \<times> 'w"
  git_reset :: "string \<Rightarrow> 'w \<Rightarrow> (exc + unit) \<times> 'w"
  active_branch :: "'w \<Rightarrow> exc + string"
  index_diff :: "'w \<Rightarrow> exc + string list"
  git_checkout :: "string \<Rightarrow> string \<Rightarrow> 'w \<Rightarrow> (exc + unit) \<times> 'w"
  index_commit :: "string \<Rightarrow> 'w \<Rightarrow> (exc + unit) \<times> 'w"
  check_call :: "string list \<Rightarrow> nat option \<Rightarrow> 'w \<Rightarrow> (exc + unit) \<times> 'w"
  environ :: "'w \<Rightarrow> string \<Rightarrow> bool"
  executable :: string
  argv :: "string list"
  execv :: "string \<Rightarrow> string list \<Rightarrow> 'w \<Rightarrow> exc + unit"

text \<open>
  The fields of \<^verbatim>\<open>open_repo\<close> to \<^verbatim>\<open>execv\<close> stand for: \<^verbatim>\<open>git.Repo(search_parent_directories=True)\<close>;
  \<^verbatim>\<open>repo.remotes.origin\<close>; \<^verbatim>\<open>origin.fetch(kill_after_timeout=t)\<close>; reading and decoding the
  blob at a path in the tree of a remote branch's commit; \<^verbatim>\<open>reload(__init__)\<close> followed by
  \<^verbatim>\<open>__init__.__version__\<close>; the \<^verbatim>\<open>__version__\<close> imported when the module was loaded;
  \<^verbatim>\<open>repo.is_dirty(untracked_files=False)\<close>; \<^verbatim>\<open>origin.pull(branch, rebase, kill_after_timeout)\<close>;
  \<^verbatim>\<open>repo.git.reset(flag)\<close>; \<^verbatim>\<open>repo.active_branch.name\<close>; the \<^verbatim>\<open>a_path\<close>s of
  \<^verbatim>\<open>repo.index.diff(None)\<close>; \<^verbatim>\<open>repo.git.checkout(flag, path)\<close>; \<^verbatim>\<open>repo.index.commit(message)\<close>;
  \<^verbatim>\<open>subprocess.check_call(args, timeout)\<close>; membership in \<^verbatim>\<open>os.environ\<close>;
  \<^verbatim>\<open>sys.executable\<close>; \<^verbatim>\<open>sys.argv\<close>; \<^verbatim>\<open>os.execv(path, args)\<close>, which returns only by raising.
\<close>

definition TARGET_BRANCH :: string where
  "TARGET_BRANCH = ''main''"

text \<open>
  The object: \<^verbatim>\<open>interval_hours\<close> is a whole number of hours, of either sign;
  \<^verbatim>\<open>process_name\<close> is \<^verbatim>\<open>None\<close> or a string; the attribute \<^verbatim>\<open>repo\<close> exists only when
  the constructor could open the repository.
\<close>

record autoupdate =
  interval_hours :: int
  process_name :: "string option"
  repo :: bool

definition init :: "'w system \<Rightarrow> int \<Rightarrow> string option \<Rightarrow> (autoupdate, 'w) prog" where
  "init sys hours name =
     try_except
       (andthen (query (open_repo sys)) (\<lambda>_.
          ret \<lparr>interval_hours = hours, process_name = name, repo = True\<rparr>))
       any_Exception
       (\<lambda>e. andthen (emit (LogException ''Failed to initialize the repository'' e)) (\<lambda>_.
          ret \<lparr>interval_hours = hours, process_name = name, repo = False\<rparr>))"

text \<open>Reading \<^verbatim>\<open>self.repo\<close> raises \<^verbatim>\<open>AttributeError\<close> when the constructor never set it.\<close>

definition self_repo :: "autoupdate \<Rightarrow> (unit, 'w) prog" where
  "self_repo self =
     (if repo self then ret ()
      else raise (Exception (OtherException ''AttributeError''
             ''AutoUpdate object has no attribute repo'')))"

section \<open>get_remote_version\<close>

text \<open>
  The loop over the lines: the first line that starts with \<^verbatim>\<open>__version__\<close> decides.
  \<^verbatim>\<open>line.split("=")[1]\<close> raises \<^verbatim>\<open>IndexError\<close> when the line has no \<^verbatim>\<open>=\<close>. When no
  line matches, the function runs off its end and returns \<^verbatim>\<open>None\<close>.
\<close>

fun scan_lines :: "string list \<Rightarrow> exc + string option" where
  "scan_lines [] = Inr None"
| "scan_lines (line # lines) =
     (if startswith line ''__version__''
      then (case split_on CHR ''='' line of
              a # b # rest \<Rightarrow> Inr (Some (strip_space_quote (strip b)))
            | _ \<Rightarrow> Inl (OtherException ''IndexError'' ''list index out of range''))
      else scan_lines lines)"

definition get_remote_version :: "'w system \<Rightarrow> autoupdate \<Rightarrow> (string option, 'w) prog" where
  "get_remote_version sys self =
     try_except
       (andthen (self_repo self) (\<lambda>_.
        andthen (query (remotes_origin sys)) (\<lambda>_.
        andthen (command (Fetch 5) (fetch sys 5)) (\<lambda>_.
        andthen (query (remote_blob sys TARGET_BRANCH [''src'', ''templar'', ''__init__.py''])) (\<lambda>text.
        lift_pure (scan_lines (split_on (CHR 0x0A) text)))))))
       any_Exception
       (\<lambda>e. andthen (emit (LogException ''Failed to get remote version for version check'' e)) (\<lambda>_.
          ret None))"

section \<open>check_version_updated\<close>

definition skip_version_check :: "(bool, 'w) prog" where
  "skip_version_check =
     andthen (emit (Log Error ''Failed to get remote version, skipping version check'')) (\<lambda>_.
       ret False)"

text \<open>
  The fresh local version: the reloaded module's \<^verbatim>\<open>__version__\<close>, or, when the reload
  raises, the \<^verbatim>\<open>__version__\<close> imported when this module was loaded.
\<close>

definition read_local_version :: "'w system \<Rightarrow> (string, 'w) prog" where
  "read_local_version sys =
     try_except
       (query (reload_version sys))
       any_Exception
       (\<lambda>e. andthen (emit (Log Error (''Failed to reload local version: '' @ exc_str e))) (\<lambda>_.
          ret (imported_version sys)))"

definition compare_versions :: "string \<Rightarrow> string \<Rightarrow> (bool, 'w) prog" where
  "compare_versions remote_version local_version =
     andthen (lift_pure (version_parse local_version)) (\<lambda>local_version_obj.
     andthen (lift_pure (version_parse remote_version)) (\<lambda>remote_version_obj.
     andthen (emit (Log Info (''Version check - remote_version: '' @ remote_version
                @ '', local_version: '' @ local_version))) (\<lambda>_.
     if version_gt remote_version_obj local_version_obj
     then andthen (emit (Log Info (''Remote version ('' @ remote_version @ '') is higher ''
                     @ ''than local version ('' @ local_version
                     @ ''), automatically updating...''))) (\<lambda>_.
            ret True)
     else ret False)))"

text \<open>\<^verbatim>\<open>not remote_version\<close> holds for \<^verbatim>\<open>None\<close> and for the empty string.\<close>

definition check_version_updated :: "'w system \<Rightarrow> autoupdate \<Rightarrow> (bool, 'w) prog" where
  "check_version_updated sys self =
     andthen (get_remote_version sys self) (\<lambda>remote_version.
       case remote_version of
         None \<Rightarrow> skip_version_check
       | Some rv \<Rightarrow>
           if rv = [] then skip_version_check
           else andthen (read_local_version sys) (\<lambda>local_version.
                  compare_versions rv local_version))"

section \<open>handle_merge_conflicts and attempt_update\<close>

text \<open>The loop over \<^verbatim>\<open>repo.index.diff(None)\<close>: one log line and one checkout per path.\<close>

fun checkout_theirs :: "'w system \<Rightarrow> string list \<Rightarrow> (unit, 'w) prog" where
  "checkout_theirs sys [] = ret ()"
| "checkout_theirs sys (file_path # items) =
     andthen (emit (Log Info (''Resolving conflict in file: '' @ file_path))) (\<lambda>_.
     andthen (command (GitCheckout ''--theirs'' file_path)
                (git_checkout sys ''--theirs'' file_path)) (\<lambda>_.
     checkout_theirs sys items))"

definition resolve_steps :: "'w system \<Rightarrow> autoupdate \<Rightarrow> (bool, 'w) prog" where
  "resolve_steps sys self =
     andthen (self_repo self) (\<lambda>_.
     andthen (command (GitReset ''--merge'') (git_reset sys ''--merge'')) (\<lambda>_.
     andthen (query (remotes_origin sys)) (\<lambda>_.
     andthen (query (active_branch sys)) (\<lambda>current_branch.
     andthen (command (Pull current_branch False None) (pull sys current_branch False None)) (\<lambda>_.
     andthen (query (index_diff sys)) (\<lambda>items.
     andthen (checkout_theirs sys items) (\<lambda>_.
     andthen (command (IndexCommit ''Resolved merge conflicts automatically'')
                (index_commit sys ''Resolved merge conflicts automatically'')) (\<lambda>_.
     andthen (emit (Log Info ''Merge conflicts resolved, repository updated to remote state.'')) (\<lambda>_.
     andthen (emit (Log Info ([CHR 0xE2, CHR 0x9C, CHR 0x85] @ '' Successfully updated''))) (\<lambda>_.
     ret True))))))))))"

definition handle_merge_conflicts :: "'w system \<Rightarrow> autoupdate \<Rightarrow> (bool, 'w) prog" where
  "handle_merge_conflicts sys self =
     try_except
       (resolve_steps sys self)
       is_GitCommandError
       (\<lambda>e. andthen (emit (LogException
               (''Failed to resolve merge conflicts, automatic update cannot proceed. ''
                @ ''Please manually pull and update.'') e)) (\<lambda>_.
          ret False))"

definition pull_or_resolve :: "'w system \<Rightarrow> autoupdate \<Rightarrow> (bool, 'w) prog" where
  "pull_or_resolve sys self =
     try_except
       (andthen (emit (Log Debug ''Attempting to pull the latest changes...'')) (\<lambda>_.
        andthen (command (Pull TARGET_BRANCH True (Some 10))
                   (pull sys TARGET_BRANCH True (Some 10))) (\<lambda>_.
        andthen (emit (Log Debug ''Successfully pulled the latest changes'')) (\<lambda>_.
        ret True))))
       is_GitCommandError
       (\<lambda>e. andthen (emit (LogException
               (''Automatic update failed due to conflicts. ''
                @ ''Attempting to handle merge conflicts.'') e)) (\<lambda>_.
          handle_merge_conflicts sys self))"

definition attempt_update :: "'w system \<Rightarrow> autoupdate \<Rightarrow> (bool, 'w) prog" where
  "attempt_update sys self =
     try_except
       (andthen (self_repo self) (\<lambda>_.
        andthen (query (remotes_origin sys)) (\<lambda>_.
        andthen (self_repo self) (\<lambda>_.
        andthen (query (is_dirty sys)) (\<lambda>dirty.
        if dirty
        then andthen (emit (Log Error (''Current changeset is dirty. Please commit changes, ''
                       @ ''discard changes, or update manually.''))) (\<lambda>_.
               ret False)
        else pull_or_resolve sys self)))))
       any_Exception
       (\<lambda>e. andthen (emit (LogException
               ''Automatic update failed. Manually pull the latest changes and update.'' e)) (\<lambda>_.
          ret False))"

section \<open>attempt_package_update, restart_app, try_update and run\<close>

definition attempt_package_update :: "'w system \<Rightarrow> (unit, 'w) prog" where
  "attempt_package_update sys =
     andthen (emit (Log Info ''Attempting to update packages using 'uv sync --extra all'...'')) (\<lambda>_.
     try_except
       (andthen (command (CheckCall [''uv'', ''sync'', ''--extra'', ''all''] (Some 300))
                   (check_call sys [''uv'', ''sync'', ''--extra'', ''all''] (Some 300))) (\<lambda>_.
        emit (Log Info ''Successfully updated packages using 'uv sync --extra all'.'')))
       any_Exception
       (\<lambda>e. emit (LogException ''Failed to synchronize dependencies with uv'' e)))"

text \<open>\<^verbatim>\<open>sys.exit(code)\<close> raises \<^verbatim>\<open>SystemExit(code)\<close>.\<close>

definition sys_exit :: "int \<Rightarrow> ('a, 'w) prog" where
  "sys_exit code = raise (SystemExit code)"

text \<open>
  \<^verbatim>\<open>time.sleep(secs)\<close> for a whole number of seconds. The interpreter turns the seconds
  into a signed 64-bit count of nanoseconds and raises \<^verbatim>\<open>OverflowError\<close> when that does
  not fit; then it raises \<^verbatim>\<open>ValueError\<close> for a negative length. Otherwise it sleeps.
\<close>

definition sleepable :: "int \<Rightarrow> bool" where
  "sleepable secs = (0 \<le> secs \<and> secs * 1000000000 \<le> 9223372036854775807)"

definition time_sleep :: "int \<Rightarrow> (unit, 'w) prog" where
  "time_sleep secs =
     (if secs * 1000000000 > 9223372036854775807 \<or> secs * 1000000000 < - 9223372036854775808
      then raise (Exception (OtherException ''OverflowError''
             ''timestamp too large to convert to C PyTime_t''))
      else if secs < 0
      then raise (Exception (OtherException ''ValueError'' ''sleep length must be non-negative''))
      else emit (Sleep secs))"

text \<open>\<^verbatim>\<open>os.execv\<close> replaces the process image when it succeeds and raises otherwise.\<close>

definition os_execv :: "'w system \<Rightarrow> string \<Rightarrow> string list \<Rightarrow> ('a, 'w) prog" where
  "os_execv sys path args =
     andthen (emit (Execv path args)) (\<lambda>_.
     andthen (query (execv sys path args)) (\<lambda>_.
     raise ProcessReplaced))"

text \<open>
  \<^verbatim>\<open>not self.process_name\<close> holds for \<^verbatim>\<open>None\<close> and for the empty string. In the branch
  that goes on, \<^verbatim>\<open>process_name\<close> is a non-empty string.
\<close>

definition restart_app :: "'w system \<Rightarrow> autoupdate \<Rightarrow> (unit, 'w) prog" where
  "restart_app sys self =
     andthen (emit (Log Info ''Restarting application...'')) (\<lambda>_.
     andthen (query (\<lambda>w. Inr (environ sys w ''PM2_HOME''))) (\<lambda>pm2.
     if pm2 then
       (case process_name self of
          None \<Rightarrow>
            andthen (emit (Log Error ''PM2 environment detected but process_name not provided'')) (\<lambda>_.
            sys_exit 1)
        | Some name \<Rightarrow>
            if name = [] then
              andthen (emit (Log Error ''PM2 environment detected but process_name not provided'')) (\<lambda>_.
              sys_exit 1)
            else
              andthen (emit (Log Info (''Detected PM2 environment. Restarting process: '' @ name))) (\<lambda>_.
              andthen (command (CheckCall [''pm2'', ''restart'', name] None)
                         (check_call sys [''pm2'', ''restart'', name] None)) (\<lambda>_.
              andthen (time_sleep 5) (\<lambda>_.
              sys_exit 1))))
     else os_execv sys (executable sys) (executable sys # argv sys)))"

definition try_update :: "'w system \<Rightarrow> autoupdate \<Rightarrow> (unit, 'w) prog" where
  "try_update sys self =
     andthen (check_version_updated sys self) (\<lambda>newer.
     if \<not> newer then ret ()
     else andthen (attempt_update sys self) (\<lambda>updated.
          if \<not> updated then ret ()
          else andthen (attempt_package_update sys) (\<lambda>_.
               restart_app sys self)))"

text \<open>
  One turn of the \<^verbatim>\<open>while True\<close> loop of \<^verbatim>\<open>run\<close>. The sleep stands after the
  \<^verbatim>\<open>try\<close> statement, not inside it.
\<close>

definition cycle :: "'w system \<Rightarrow> autoupdate \<Rightarrow> (unit, 'w) prog" where
  "cycle sys self =
     andthen
       (try_except
          (andthen (emit (Log Info ''Running autoupdate'')) (\<lambda>_. try_update sys self))
          any_Exception
          (\<lambda>e. emit (LogException ''Exception during autoupdate check'' e)))
       (\<lambda>_. time_sleep (interval_hours self * 3600))"

text \<open>
  The loop has no exit of its own. \<open>run n\<close> runs at most \<open>n\<close> turns: the result is
  \<open>Some\<close> of what ended the thread, or \<open>None\<close> when the loop is still going after
  \<open>n\<close> turns.
\<close>

fun run :: "nat \<Rightarrow> 'w system \<Rightarrow> autoupdate \<Rightarrow> 'w st \<Rightarrow> signal option \<times> 'w st" where
  "run 0 sys self s = (None, s)"
| "run (Suc n) sys self s =
     (case cycle sys self s of
        (Inl sig, s') \<Rightarrow> (Some sig, s')
      | (Inr u, s') \<Rightarrow> run n sys self s')"

section \<open>A small world to run the daemon in\<close>

text \<open>
  A scripted environment for evaluating the functions above on concrete inputs: the
  remote manifest, the local version, the state of the working copy, the outcome of
  each coming pull, the paths \<^verbatim>\<open>index.diff(None)\<close> reports, and what has been done to
  the repository so far.
\<close>

record sim =
  sim_repo :: bool
  sim_remote_init :: "string option"
  sim_local_version :: "string option"
  sim_dirty :: bool
  sim_branch :: "string option"
  sim_pulls :: "exc option list"
  sim_unstaged :: "string list"
  sim_theirs :: "string list"
  sim_commits :: "string list"
  sim_pm2 :: bool
  sim_tools :: "string list"

definition sim_pull :: "sim \<Rightarrow> (exc + unit) \<times> sim" where
  "sim_pull w =
     (case sim_pulls w of
        [] \<Rightarrow> (Inr (), w)
      | None # rest \<Rightarrow> (Inr (), w\<lparr>sim_pulls := rest\<rparr>)
      | Some e # rest \<Rightarrow> (Inl e, w\<lparr>sim_pulls := rest\<rparr>))"

definition sim_check_call :: "string list \<Rightarrow> sim \<Rightarrow> (exc + unit) \<times> sim" where
  "sim_check_call args w =
     (if take 1 args \<noteq> [] \<and> set (take 1 args) \<subseteq> set (sim_tools w) then (Inr (), w)
      else (Inl (OtherException ''FileNotFoundError'' ''No such file or directory''), w))"

definition sim_system :: "sim system" where
  "sim_system =
     \<lparr>open_repo = (\<lambda>w. if sim_repo w then Inr ()
         else Inl (OtherException ''InvalidGitRepositoryError'' ''no repository'')),
      remotes_origin = (\<lambda>w. Inr ()),
      fetch = (\<lambda>t w. (Inr (), w)),
      remote_blob = (\<lambda>branch path w.
         case sim_remote_init w of
           None \<Rightarrow> Inl (OtherException ''KeyError'' ''no such path in the tree'')
         | Some text \<Rightarrow> Inr text),
      reload_version = (\<lambda>w.
         case sim_local_version w of
           None \<Rightarrow> Inl (OtherException ''ImportError'' ''cannot reload module'')
         | Some v \<Rightarrow> Inr v),
      imported_version = ''0.1.0'',
      is_dirty = (\<lambda>w. Inr (sim_dirty w)),
      pull = (\<lambda>branch rebase t w. sim_pull w),
      git_reset = (\<lambda>flag w. (Inr (), w)),
      active_branch = (\<lambda>w.
         case sim_branch w of
           None \<Rightarrow> Inl (OtherException ''TypeError'' ''HEAD is a detached symbolic reference'')
         | Some b \<Rightarrow> Inr b),
      index_diff = (\<lambda>w. Inr (sim_unstaged w)),
      git_checkout = (\<lambda>flag path w.
         (Inr (), w\<lparr>sim_unstaged := removeAll path (sim_unstaged w),
                     sim_theirs := path # sim_theirs w\<rparr>)),
      index_commit = (\<lambda>message w. (Inr (), w\<lparr>sim_commits := sim_commits w @ [message]\<rparr>)),
      check_call = (\<lambda>args t w. sim_check_call args w),
      environ = (\<lambda>w name. name = ''PM2_HOME'' \<and> sim_pm2 w),
      executable = ''/usr/bin/python3'',
      argv = [''neurons/miner.py''],
      execv = (\<lambda>path args w. Inr ())\<rparr>"

text \<open>
  The manifest line \<^verbatim>\<open>__version__ = "v"\<close>, a clean working copy on a branch whose
  remote manifest declares version \<open>v\<close>, and a daemon constructed with a process name.
\<close>

definition manifest :: "string \<Rightarrow> string" where
  "manifest v = ''# templar'' @ [CHR 0x0A] @ ''__version__ = '' @ [CHR 0x22] @ v @ [CHR 0x22] @ [CHR 0x0A]"

definition sim_world :: "string \<Rightarrow> string \<Rightarrow> sim" where
  "sim_world branch v =
     \<lparr>sim_repo = True, sim_remote_init = Some (manifest v), sim_local_version = Some ''0.2.9'',
      sim_dirty = False, sim_branch = Some branch, sim_pulls = [], sim_unstaged = [],
      sim_theirs = [], sim_commits = [], sim_pm2 = False, sim_tools = [''uv'', ''pm2'']\<rparr>"

definition start :: "'w \<Rightarrow> 'w st" where
  "start w = \<lparr>world = w, trace = []\<rparr>"

definition daemon :: "string option \<Rightarrow> autoupdate" where
  "daemon name = \<lparr>interval_hours = 4, process_name = name, repo = True\<rparr>"

text \<open>The same daemon constructed with another interval.\<close>

definition daemon_every :: "int \<Rightarrow> string option \<Rightarrow> autoupdate" where
  "daemon_every hours name = \<lparr>interval_hours = hours, process_name = name, repo = True\<rparr>"

text \<open>
  Variations: the git executable is missing at the first pull (the library raises
  \<^verbatim>\<open>GitCommandNotFound\<close>, which is not a \<^verbatim>\<open>GitCommandError\<close>); the remote host cannot
  be resolved at the first pull (git exits with a non-zero status, which the library
  raises as \<^verbatim>\<open>GitCommandError\<close>); the first pull stops on a conflict and
  \<^verbatim>\<open>index.diff(None)\<close> reports the given paths; the process runs under PM2; the
  dependency tool is not installed; the local version module cannot be reloaded.
\<close>

definition no_git_world :: sim where
  "no_git_world = (sim_world ''main'' ''0.3.0'')
     \<lparr>sim_pulls := [Some (OtherException ''GitCommandNotFound'' ''git executable not found'')]\<rparr>"

definition offline_world :: sim where
  "offline_world = (sim_world ''main'' ''0.3.0'')
     \<lparr>sim_pulls := [Some (GitCommandError ''fatal: Could not resolve host: github.com'')]\<rparr>"

definition conflict_world :: "string \<Rightarrow> string list \<Rightarrow> sim" where
  "conflict_world branch paths = (sim_world branch ''0.3.0'')
     \<lparr>sim_pulls := [Some (GitCommandError ''CONFLICT (content)'')], sim_unstaged := paths\<rparr>"

definition pm2_world :: sim where
  "pm2_world = (sim_world ''main'' ''0.3.0'')\<lparr>sim_pm2 := True\<rparr>"

definition no_uv_world :: sim where
  "no_uv_world = (sim_world ''main'' ''0.3.0'')\<lparr>sim_tools := [''pm2'']\<rparr>"

definition stale_world :: sim where
  "stale_world = (sim_world ''main'' ''0.3.0'')\<lparr>sim_local_version := None\<rparr>"

section \<open>Reading traces\<close>

fun is_log :: "event \<Rightarrow> bool" where
  "is_log (Log l m) = True"
| "is_log (LogException m e) = True"
| "is_log ev = False"

fun is_commit :: "event \<Rightarrow> bool" where
  "is_commit (IndexCommit m) = True"
| "is_commit ev = False"

text \<open>What one turn of the loop in \<^verbatim>\<open>handle_merge_conflicts\<close> leaves in the trace.\<close>

definition resolving :: "string \<Rightarrow> event list" where
  "resolving file_path =
     [Log Info (''Resolving conflict in file: '' @ file_path), GitCheckout ''--theirs'' file_path]"

section \<open>Which calls return, and with what\<close>

lemmas prog_defs = ret_def raise_def andthen_def try_except_def emit_def query_def
  command_def lift_pure_def any_Exception_def

lemma string_less_irrefl: "\<not> string_less s s"
  by (induction s) simp_all

lemma identifier_less_irrefl: "\<not> identifier_less i i"
  by (cases i) (simp_all add: string_less_irrefl)

lemma prerelease_less_irrefl: "\<not> prerelease_less p p"
  by (induction p) (simp_all add: identifier_less_irrefl)

lemma semver_less_irrefl: "\<not> semver_less v v"
  by (simp add: semver_less_def prerelease_less_irrefl)

text \<open>The two reads of \<^verbatim>\<open>check_version_updated\<close> catch everything they raise.\<close>

lemma get_remote_version_returns:
  "\<exists>r s'. get_remote_version sys self s = (Inr r, s')"
  by (auto simp: get_remote_version_def self_repo_def prog_defs
      split: sum.splits prod.splits signal.splits if_splits)

lemma read_local_version_returns:
  "\<exists>v s'. read_local_version sys s = (Inr v, s')"
  by (auto simp: read_local_version_def prog_defs split: sum.splits prod.splits signal.splits)

lemma compare_versions_result:
  "fst (compare_versions rv lv s) =
     (case version_parse lv of
        Inl e \<Rightarrow> Inl (Exception e)
      | Inr l \<Rightarrow> (case version_parse rv of
                   Inl e \<Rightarrow> Inl (Exception e)
                 | Inr r \<Rightarrow> Inr (semver_less l r)))"
  by (simp add: compare_versions_def prog_defs version_gt_def split: sum.splits)

lemma attempt_package_update_returns:
  "\<exists>s'. attempt_package_update sys s = (Inr (), s')"
  by (auto simp: attempt_package_update_def prog_defs split: sum.splits prod.splits signal.splits)

lemma checkout_theirs_signal:
  "checkout_theirs sys items s = (Inl sig, s') \<Longrightarrow> \<exists>e. sig = Exception e"
proof (induction items arbitrary: s)
  case Nil
  then show ?case by (simp add: prog_defs)
next
  case (Cons p items)
  then show ?case
    by (auto simp: prog_defs split: sum.splits prod.splits)
qed

lemma resolve_steps_signal:
  "resolve_steps sys self s = (Inl sig, s') \<Longrightarrow> \<exists>e. sig = Exception e"
  by (auto simp: resolve_steps_def self_repo_def prog_defs
      split: sum.splits prod.splits if_splits dest: checkout_theirs_signal)

lemma resolve_steps_value:
  "resolve_steps sys self s = (Inr b, s') \<Longrightarrow> b"
  by (auto simp: resolve_steps_def self_repo_def prog_defs
      split: sum.splits prod.splits if_splits)

lemma handle_merge_conflicts_signal:
  "handle_merge_conflicts sys self s = (Inl sig, s') \<Longrightarrow>
     \<exists>e. sig = Exception e \<and> \<not> is_GitCommandError e"
  by (auto simp: handle_merge_conflicts_def try_except_def andthen_def emit_def ret_def
      split: sum.splits prod.splits signal.splits if_splits dest: resolve_steps_signal)

lemma pull_or_resolve_signal:
  "pull_or_resolve sys self s = (Inl sig, s') \<Longrightarrow> \<exists>e. sig = Exception e"
  by (auto simp: pull_or_resolve_def prog_defs
      split: sum.splits prod.splits signal.splits if_splits dest: handle_merge_conflicts_signal)

text \<open>\<^verbatim>\<open>attempt_update\<close> always returns a boolean: its outer handler catches the rest.\<close>

lemma attempt_update_returns:
  "\<exists>b s'. attempt_update sys self s = (Inr b, s')"
  by (auto simp: attempt_update_def self_repo_def prog_defs
      split: sum.splits prod.splits signal.splits if_splits dest: pull_or_resolve_signal)

text \<open>\<^verbatim>\<open>restart_app\<close> never returns to its caller.\<close>

lemma restart_app_never_returns:
  "restart_app sys self s \<noteq> (Inr u, s')"
  by (auto simp: restart_app_def os_execv_def sys_exit_def time_sleep_def prog_defs
      split: sum.splits prod.splits option.splits if_splits)

section \<open>The version check\<close>

text \<open>
  C1 (as the code has it). Let \<open>remote\<close> be what \<^verbatim>\<open>get_remote_version\<close> returned and
  \<open>lv\<close> the local version that was read. \<^verbatim>\<open>check_version_updated\<close> returns true iff
  the remote version string was obtained (neither \<^verbatim>\<open>None\<close> nor empty), both strings
  parse, and the remote version is strictly greater than the local one in the
  precedence order. It returns false, after logging, when the remote version is missing;
  it returns false when both parse to the same version. When the local or the remote
  string does not parse, it does not return false: the parse error leaves
  \<^verbatim>\<open>check_version_updated\<close> as an exception.
\<close>

theorem check_version_updated_newer:
  assumes "get_remote_version sys self s = (Inr remote, s1)"
      and "read_local_version sys s1 = (Inr lv, s2)"
  shows "(fst (check_version_updated sys self s) = Inr True \<longleftrightarrow>
            (\<exists>rv r l. remote = Some rv \<and> rv \<noteq> [] \<and> version_parse rv = Inr r \<and>
               version_parse lv = Inr l \<and> semver_less l r))
       \<and> (remote = None \<or> remote = Some [] \<longrightarrow>
            check_version_updated sys self s =
              (Inr False, s1\<lparr>trace := trace s1 @
                 [Log Error ''Failed to get remote version, skipping version check'']\<rparr>))
       \<and> (\<forall>rv v. remote = Some rv \<and> rv \<noteq> [] \<and> version_parse rv = Inr v \<and>
              version_parse lv = Inr v \<longrightarrow> fst (check_version_updated sys self s) = Inr False)
       \<and> (\<forall>rv e. remote = Some rv \<and> rv \<noteq> [] \<and> version_parse lv = Inl e \<longrightarrow>
              check_version_updated sys self s = (Inl (Exception e), s2))
       \<and> (\<forall>rv l e. remote = Some rv \<and> rv \<noteq> [] \<and> version_parse lv = Inr l \<and>
              version_parse rv = Inl e \<longrightarrow>
              check_version_updated sys self s = (Inl (Exception e), s2))"
proof -
  have skip: "remote = None \<or> remote = Some [] \<Longrightarrow>
      check_version_updated sys self s =
        (Inr False, s1\<lparr>trace := trace s1 @
           [Log Error ''Failed to get remote version, skipping version check'']\<rparr>)"
    using assms(1)
    by (auto simp: check_version_updated_def skip_version_check_def andthen_def emit_def ret_def)
  have go: "check_version_updated sys self s = compare_versions rv lv s2"
    if "remote = Some rv" "rv \<noteq> []" for rv
    using assms that by (simp add: check_version_updated_def andthen_def)
  have res: "fst (check_version_updated sys self s) =
      (case version_parse lv of
         Inl e \<Rightarrow> Inl (Exception e)
       | Inr l \<Rightarrow> (case version_parse rv of
                    Inl e \<Rightarrow> Inl (Exception e)
                  | Inr r \<Rightarrow> Inr (semver_less l r)))"
    if "remote = Some rv" "rv \<noteq> []" for rv
    using go [OF that] by (simp add: compare_versions_result)
  have c1: "fst (check_version_updated sys self s) = Inr True \<longleftrightarrow>
            (\<exists>rv r l. remote = Some rv \<and> rv \<noteq> [] \<and> version_parse rv = Inr r \<and>
               version_parse lv = Inr l \<and> semver_less l r)"
  proof (cases "remote = None \<or> remote = Some []")
    case True
    then show ?thesis using skip by auto
  next
    case False
    then obtain rv where rv: "remote = Some rv" "rv \<noteq> []" by (cases remote) auto
    show ?thesis using res [OF rv] rv by (auto split: sum.splits)
  qed
  have c3: "\<forall>rv v. remote = Some rv \<and> rv \<noteq> [] \<and> version_parse rv = Inr v \<and>
              version_parse lv = Inr v \<longrightarrow> fst (check_version_updated sys self s) = Inr False"
    using res by (auto simp: semver_less_irrefl)
  have c4: "\<forall>rv e. remote = Some rv \<and> rv \<noteq> [] \<and> version_parse lv = Inl e \<longrightarrow>
              check_version_updated sys self s = (Inl (Exception e), s2)"
    using go by (auto simp: compare_versions_def andthen_def lift_pure_def)
  have c5: "\<forall>rv l e. remote = Some rv \<and> rv \<noteq> [] \<and> version_parse lv = Inr l \<and>
              version_parse rv = Inl e \<longrightarrow>
              check_version_updated sys self s = (Inl (Exception e), s2)"
    using go by (auto simp: compare_versions_def andthen_def lift_pure_def)
  show ?thesis using c1 skip c3 c4 c5 by blast
qed

text \<open>
  The theorem at work: the remote manifest declares 0.3.0, the reloaded local version is
  0.2.9, and the check returns true.
\<close>

theorem check_version_updated_newer_witness:
  "get_remote_version sim_system (daemon None) (start (sim_world ''main'' ''0.3.0'')) =
     (Inr (Some ''0.3.0''), \<lparr>world = sim_world ''main'' ''0.3.0'', trace = [Fetch 5]\<rparr>)
   \<and> version_parse ''0.3.0'' = Inr (SemanticVersion 0 3 0 [])
   \<and> version_parse ''0.2.9'' = Inr (SemanticVersion 0 2 9 [])
   \<and> fst (check_version_updated sim_system (daemon None) (start (sim_world ''main'' ''0.3.0'')))
       = Inr True"
proof -
  have h1: "get_remote_version sim_system (daemon None) (start (sim_world ''main'' ''0.3.0'')) =
     (Inr (Some ''0.3.0''), \<lparr>world = sim_world ''main'' ''0.3.0'', trace = [Fetch 5]\<rparr>)"
    by code_simp
  have h2: "read_local_version sim_system \<lparr>world = sim_world ''main'' ''0.3.0'', trace = [Fetch 5]\<rparr> =
     (Inr ''0.2.9'', \<lparr>world = sim_world ''main'' ''0.3.0'', trace = [Fetch 5]\<rparr>)"
    by code_simp
  have p1: "version_parse ''0.3.0'' = Inr (SemanticVersion 0 3 0 [])" by code_simp
  have p2: "version_parse ''0.2.9'' = Inr (SemanticVersion 0 2 9 [])" by code_simp
  have lt: "semver_less (SemanticVersion 0 2 9 []) (SemanticVersion 0 3 0 [])" by code_simp
  from check_version_updated_newer [OF h1 h2] p1 p2 lt
  have "fst (check_version_updated sim_system (daemon None) (start (sim_world ''main'' ''0.3.0'')))
       = Inr True"
    by simp
  with h1 p1 p2 show ?thesis by simp
qed

text \<open>
  C1 as stated fails: with the remote manifest line \<^verbatim>\<open>__version__ = "banana"\<close> the
  remote version is obtained but does not parse, and \<^verbatim>\<open>check_version_updated\<close> raises
  \<^verbatim>\<open>InvalidVersion\<close> instead of returning false.
\<close>

theorem check_version_updated_unparsable_counterexample:
  "check_version_updated sim_system (daemon None) (start (sim_world ''main'' ''banana'')) =
     (Inl (Exception (OtherException ''InvalidVersion'' ''Invalid version: banana'')),
      \<lparr>world = sim_world ''main'' ''banana'', trace = [Fetch 5]\<rparr>)"
  by code_simp

section \<open>Applying the update\<close>

lemma dirty_attempt_event:
  assumes "is_dirty sys (world s) = Inr True"
  shows "attempt_update sys self s =
     (Inr False, s\<lparr>trace := trace s @
        [if \<not> repo self
         then LogException ''Automatic update failed. Manually pull the latest changes and update.''
                (OtherException ''AttributeError'' ''AutoUpdate object has no attribute repo'')
         else (case remotes_origin sys (world s) of
                 Inl e \<Rightarrow> LogException
                   ''Automatic update failed. Manually pull the latest changes and update.'' e
               | Inr u \<Rightarrow> Log Error (''Current changeset is dirty. Please commit changes, ''
                    @ ''discard changes, or update manually.''))]\<rparr>)"
  using assms
  by (simp add: attempt_update_def self_repo_def prog_defs split: sum.splits)

text \<open>
  C2. On a dirty working tree (\<^verbatim>\<open>is_dirty(untracked_files=False)\<close> answers true),
  every call of \<^verbatim>\<open>attempt_update\<close> returns false, issues no command at all (no pull,
  no commit: the only new events are log lines) and leaves the world, and so the dirty
  files, as they were. When the repository and its remote are there, the one new event is
  the error line asking for manual action.
\<close>

theorem attempt_update_dirty:
  assumes "is_dirty sys (world s) = Inr True"
  shows "(\<exists>logs. attempt_update sys self s = (Inr False, s\<lparr>trace := trace s @ logs\<rparr>) \<and>
            list_all is_log logs)
       \<and> (repo self \<and> remotes_origin sys (world s) = Inr () \<longrightarrow>
            attempt_update sys self s =
              (Inr False, s\<lparr>trace := trace s @
                 [Log Error (''Current changeset is dirty. Please commit changes, ''
                    @ ''discard changes, or update manually.'')]\<rparr>))"
proof
  let ?ev = "if \<not> repo self
         then LogException ''Automatic update failed. Manually pull the latest changes and update.''
                (OtherException ''AttributeError'' ''AutoUpdate object has no attribute repo'')
         else (case remotes_origin sys (world s) of
                 Inl e \<Rightarrow> LogException
                   ''Automatic update failed. Manually pull the latest changes and update.'' e
               | Inr u \<Rightarrow> Log Error (''Current changeset is dirty. Please commit changes, ''
                    @ ''discard changes, or update manually.''))"
  have "list_all is_log [?ev]" by (simp split: sum.splits)
  with dirty_attempt_event [OF assms, of self]
  show "\<exists>logs. attempt_update sys self s = (Inr False, s\<lparr>trace := trace s @ logs\<rparr>) \<and>
            list_all is_log logs"
    by blast
next
  show "repo self \<and> remotes_origin sys (world s) = Inr () \<longrightarrow>
            attempt_update sys self s =
              (Inr False, s\<lparr>trace := trace s @
                 [Log Error (''Current changeset is dirty. Please commit changes, ''
                    @ ''discard changes, or update manually.'')]\<rparr>)"
    using dirty_attempt_event [OF assms, of self] by simp
qed

text \<open>
  The theorem at work on a dirty copy of the small world.
\<close>

theorem attempt_update_dirty_witness:
  "is_dirty sim_system (world (start ((sim_world ''main'' ''0.3.0'')\<lparr>sim_dirty := True\<rparr>))) = Inr True
   \<and> attempt_update sim_system (daemon None)
        (start ((sim_world ''main'' ''0.3.0'')\<lparr>sim_dirty := True\<rparr>)) =
      (Inr False,
       \<lparr>world = (sim_world ''main'' ''0.3.0'')\<lparr>sim_dirty := True\<rparr>,
        trace = [Log Error (''Current changeset is dirty. Please commit changes, ''
                    @ ''discard changes, or update manually.'')]\<rparr>)"
proof -
  have h: "is_dirty sim_system (world (start ((sim_world ''main'' ''0.3.0'')\<lparr>sim_dirty := True\<rparr>)))
      = Inr True"
    by code_simp
  have r: "repo (daemon None)" by code_simp
  have o: "remotes_origin sim_system
      (world (start ((sim_world ''main'' ''0.3.0'')\<lparr>sim_dirty := True\<rparr>))) = Inr ()"
    by code_simp
  from attempt_update_dirty [OF h, of "daemon None"] r o
  have "attempt_update sim_system (daemon None)
        (start ((sim_world ''main'' ''0.3.0'')\<lparr>sim_dirty := True\<rparr>)) =
      (Inr False, (start ((sim_world ''main'' ''0.3.0'')\<lparr>sim_dirty := True\<rparr>))
         \<lparr>trace := trace (start ((sim_world ''main'' ''0.3.0'')\<lparr>sim_dirty := True\<rparr>)) @
            [Log Error (''Current changeset is dirty. Please commit changes, ''
                    @ ''discard changes, or update manually.'')]\<rparr>)"
    by blast
  with h show ?thesis by (simp add: start_def)
qed

lemma attempt_update_clean:
  assumes "repo self" "remotes_origin sys (world s) = Inr ()" "is_dirty sys (world s) = Inr False"
  shows "attempt_update sys self s =
     try_except (pull_or_resolve sys self) any_Exception
       (\<lambda>e. andthen (emit (LogException
               ''Automatic update failed. Manually pull the latest changes and update.'' e)) (\<lambda>_.
          ret False)) s"
  using assms
  by (simp add: attempt_update_def self_repo_def try_except_def andthen_def query_def ret_def)

text \<open>
  C3 (as the code has it). On a clean working tree \<^verbatim>\<open>attempt_update\<close> pulls the target
  branch with rebase and a timeout of 10. When the pull returns, the result is true and
  nothing of the resolver runs. The failures are told apart by the class of the
  exception, not by their cause: whenever the pull raises \<^verbatim>\<open>GitCommandError\<close>, for a
  conflict or for anything else that makes git fail, \<^verbatim>\<open>handle_merge_conflicts\<close> is
  invoked and what it returns is returned. For a pull that raises an exception of any
  other class the failure is logged, the result is false, and no command of the resolver
  is issued. (Should the resolver itself raise, the outer handler logs that and returns
  false.)
\<close>

theorem attempt_update_pull_outcomes:
  assumes "repo self" "remotes_origin sys (world s) = Inr ()" "is_dirty sys (world s) = Inr False"
      and "pull sys TARGET_BRANCH True (Some 10) (world s) = (r, w')"
      and "s1 = \<lparr>world = w', trace = trace s @
               [Log Debug ''Attempting to pull the latest changes...'',
                Pull TARGET_BRANCH True (Some 10)]\<rparr>"
  shows "(r = Inr () \<longrightarrow>
            attempt_update sys self s =
              (Inr True, s1\<lparr>trace := trace s1 @
                 [Log Debug ''Successfully pulled the latest changes'']\<rparr>))
       \<and> (\<forall>e b s2. r = Inl e \<and> is_GitCommandError e \<and>
            handle_merge_conflicts sys self
              (s1\<lparr>trace := trace s1 @
                 [LogException (''Automatic update failed due to conflicts. ''
                    @ ''Attempting to handle merge conflicts.'') e]\<rparr>) = (Inr b, s2) \<longrightarrow>
            attempt_update sys self s = (Inr b, s2))
       \<and> (\<forall>e. r = Inl e \<and> \<not> is_GitCommandError e \<longrightarrow>
            attempt_update sys self s =
              (Inr False, s1\<lparr>trace := trace s1 @
                 [LogException
                    ''Automatic update failed. Manually pull the latest changes and update.'' e]\<rparr>))
       \<and> (\<forall>e e2 s2. r = Inl e \<and> is_GitCommandError e \<and>
            handle_merge_conflicts sys self
              (s1\<lparr>trace := trace s1 @
                 [LogException (''Automatic update failed due to conflicts. ''
                    @ ''Attempting to handle merge conflicts.'') e]\<rparr>) = (Inl (Exception e2), s2) \<longrightarrow>
            attempt_update sys self s =
              (Inr False, s2\<lparr>trace := trace s2 @
                 [LogException
                    ''Automatic update failed. Manually pull the latest changes and update.'' e2]\<rparr>))"
  using assms(4,5)
  by (auto simp: attempt_update_clean [OF assms(1-3)] pull_or_resolve_def prog_defs
      split: sum.splits prod.splits)

text \<open>
  The theorem at work: a pull that finds no git executable, and a pull that stops on a
  conflict and is resolved.
\<close>

theorem attempt_update_pull_outcomes_witness:
  "attempt_update sim_system (daemon None) (start no_git_world) =
     (Inr False,
      \<lparr>world = no_git_world\<lparr>sim_pulls := []\<rparr>,
       trace = [Log Debug ''Attempting to pull the latest changes...'',
                Pull ''main'' True (Some 10),
                LogException
                  ''Automatic update failed. Manually pull the latest changes and update.''
                  (OtherException ''GitCommandNotFound'' ''git executable not found'')]\<rparr>)
   \<and> attempt_update sim_system (daemon None) (start (conflict_world ''main'' [''a.py''])) =
     (Inr True,
      \<lparr>world = (sim_world ''main'' ''0.3.0'')
         \<lparr>sim_theirs := [''a.py''],
          sim_commits := [''Resolved merge conflicts automatically'']\<rparr>,
       trace = [Log Debug ''Attempting to pull the latest changes...'',
                Pull ''main'' True (Some 10),
                LogException (''Automatic update failed due to conflicts. ''
                  @ ''Attempting to handle merge conflicts.'') (GitCommandError ''CONFLICT (content)''),
                GitReset ''--merge'', Pull ''main'' False None,
                Log Info ''Resolving conflict in file: a.py'',
                GitCheckout ''--theirs'' ''a.py'',
                IndexCommit ''Resolved merge conflicts automatically'',
                Log Info ''Merge conflicts resolved, repository updated to remote state.'',
                Log Info ([CHR 0xE2, CHR 0x9C, CHR 0x85] @ '' Successfully updated'')]\<rparr>)"
proof -
  have r: "repo (daemon None)" by code_simp
  have t: "TARGET_BRANCH = ''main''" by code_simp
  have o: "remotes_origin sim_system (world (start no_git_world)) = Inr ()" by code_simp
  have d: "is_dirty sim_system (world (start no_git_world)) = Inr False" by code_simp
  have p: "pull sim_system TARGET_BRANCH True (Some 10) (world (start no_git_world)) =
     (Inl (OtherException ''GitCommandNotFound'' ''git executable not found''), no_git_world\<lparr>sim_pulls := []\<rparr>)"
    by code_simp
  have n: "\<not> is_GitCommandError (OtherException ''GitCommandNotFound'' ''git executable not found'')" by simp
  from attempt_update_pull_outcomes [OF r o d p refl] n
  have first: "attempt_update sim_system (daemon None) (start no_git_world) =
     (Inr False,
      \<lparr>world = no_git_world\<lparr>sim_pulls := []\<rparr>,
       trace = [Log Debug ''Attempting to pull the latest changes...'',
                Pull ''main'' True (Some 10),
                LogException
                  ''Automatic update failed. Manually pull the latest changes and update.''
                  (OtherException ''GitCommandNotFound'' ''git executable not found'')]\<rparr>)"
    by (simp add: start_def t)
  let ?c = "conflict_world ''main'' [''a.py'']"
  have o2: "remotes_origin sim_system (world (start ?c)) = Inr ()" by code_simp
  have d2: "is_dirty sim_system (world (start ?c)) = Inr False" by code_simp
  have p2: "pull sim_system TARGET_BRANCH True (Some 10) (world (start ?c)) =
     (Inl (GitCommandError ''CONFLICT (content)''), ?c\<lparr>sim_pulls := []\<rparr>)"
    by code_simp
  have g: "is_GitCommandError (GitCommandError ''CONFLICT (content)'')" by simp
  have h: "handle_merge_conflicts sim_system (daemon None)
     (\<lparr>world = ?c\<lparr>sim_pulls := []\<rparr>, trace = trace (start ?c) @
         [Log Debug ''Attempting to pull the latest changes...'',
          Pull TARGET_BRANCH True (Some 10)]\<rparr>
      \<lparr>trace := trace \<lparr>world = ?c\<lparr>sim_pulls := []\<rparr>, trace = trace (start ?c) @
         [Log Debug ''Attempting to pull the latest changes...'',
          Pull TARGET_BRANCH True (Some 10)]\<rparr> @
         [LogException (''Automatic update failed due to conflicts. ''
            @ ''Attempting to handle merge conflicts.'') (GitCommandError ''CONFLICT (content)'')]\<rparr>) =
     (Inr True,
      \<lparr>world = (sim_world ''main'' ''0.3.0'')
         \<lparr>sim_theirs := [''a.py''],
          sim_commits := [''Resolved merge conflicts automatically'']\<rparr>,
       trace = [Log Debug ''Attempting to pull the latest changes...'',
                Pull ''main'' True (Some 10),
                LogException (''Automatic update failed due to conflicts. ''
                  @ ''Attempting to handle merge conflicts.'') (GitCommandError ''CONFLICT (content)''),
                GitReset ''--merge'', Pull ''main'' False None,
                Log Info ''Resolving conflict in file: a.py'',
                GitCheckout ''--theirs'' ''a.py'',
                IndexCommit ''Resolved merge conflicts automatically'',
                Log Info ''Merge conflicts resolved, repository updated to remote state.'',
                Log Info ([CHR 0xE2, CHR 0x9C, CHR 0x85] @ '' Successfully updated'')]\<rparr>)"
    by code_simp
  from attempt_update_pull_outcomes [OF r o2 d2 p2 refl] g h
  have second: "attempt_update sim_system (daemon None) (start ?c) =
     (Inr True,
      \<lparr>world = (sim_world ''main'' ''0.3.0'')
         \<lparr>sim_theirs := [''a.py''],
          sim_commits := [''Resolved merge conflicts automatically'']\<rparr>,
       trace = [Log Debug ''Attempting to pull the latest changes...'',
                Pull ''main'' True (Some 10),
                LogException (''Automatic update failed due to conflicts. ''
                  @ ''Attempting to handle merge conflicts.'') (GitCommandError ''CONFLICT (content)''),
                GitReset ''--merge'', Pull ''main'' False None,
                Log Info ''Resolving conflict in file: a.py'',
                GitCheckout ''--theirs'' ''a.py'',
                IndexCommit ''Resolved merge conflicts automatically'',
                Log Info ''Merge conflicts resolved, repository updated to remote state.'',
                Log Info ([CHR 0xE2, CHR 0x9C, CHR 0x85] @ '' Successfully updated'')]\<rparr>)"
    by blast
  from first second show ?thesis by (rule conjI)
qed

text \<open>
  C3 as stated fails: the remote host cannot be resolved at the first pull. That is a
  network failure, git reports it by its exit status, and it arrives as
  \<^verbatim>\<open>GitCommandError\<close>: the resolver is invoked all the same, resets, pulls again,
  commits, and \<^verbatim>\<open>attempt_update\<close> returns true.
\<close>

theorem attempt_update_network_failure_counterexample:
  "attempt_update sim_system (daemon None) (start offline_world) =
     (Inr True,
      \<lparr>world = (sim_world ''main'' ''0.3.0'')
         \<lparr>sim_commits := [''Resolved merge conflicts automatically'']\<rparr>,
       trace = [Log Debug ''Attempting to pull the latest changes...'',
                Pull ''main'' True (Some 10),
                LogException (''Automatic update failed due to conflicts. ''
                  @ ''Attempting to handle merge conflicts.'')
                  (GitCommandError ''fatal: Could not resolve host: github.com''),
                GitReset ''--merge'', Pull ''main'' False None,
                IndexCommit ''Resolved merge conflicts automatically'',
                Log Info ''Merge conflicts resolved, repository updated to remote state.'',
                Log Info ([CHR 0xE2, CHR 0x9C, CHR 0x85] @ '' Successfully updated'')]\<rparr>)"
  by code_simp

section \<open>Resolving conflicts\<close>

lemma checkout_theirs_success:
  "checkout_theirs sys items s = (Inr (), s') \<Longrightarrow>
     trace s' = trace s @ concat (map resolving items)"
proof (induction items arbitrary: s)
  case Nil
  then show ?case by (simp add: ret_def)
next
  case (Cons p items)
  from Cons.prems obtain w1 where
    rest: "checkout_theirs sys items
             \<lparr>world = w1, trace = trace s @ resolving p\<rparr> = (Inr (), s')"
    by (auto simp: prog_defs resolving_def split: sum.splits prod.splits)
  from Cons.IH [OF rest] show ?case by simp
qed

lemma resolve_steps_success:
  assumes "resolve_steps sys self s = (Inr b, s')"
  shows "\<exists>w1 branch w2 items s3.
      git_reset sys ''--merge'' (world s) = (Inr (), w1)
    \<and> active_branch sys w1 = Inr branch
    \<and> pull sys branch False None w1 = (Inr (), w2)
    \<and> index_diff sys w2 = Inr items
    \<and> checkout_theirs sys items
        \<lparr>world = w2, trace = trace s @ [GitReset ''--merge'', Pull branch False None]\<rparr>
        = (Inr (), s3)
    \<and> index_commit sys ''Resolved merge conflicts automatically'' (world s3) = (Inr (), world s')
    \<and> trace s' = trace s3 @
        [IndexCommit ''Resolved merge conflicts automatically'',
         Log Info ''Merge conflicts resolved, repository updated to remote state.'',
         Log Info ([CHR 0xE2, CHR 0x9C, CHR 0x85] @ '' Successfully updated'')]"
  using assms
  by (auto simp: resolve_steps_def self_repo_def prog_defs
      split: sum.splits prod.splits if_splits)

lemma handle_merge_conflicts_True:
  "handle_merge_conflicts sys self s = (Inr True, s') \<Longrightarrow> resolve_steps sys self s = (Inr True, s')"
  by (auto simp: handle_merge_conflicts_def try_except_def andthen_def emit_def ret_def
      split: sum.splits prod.splits signal.splits if_splits dest: resolve_steps_value)

lemma filter_commit_resolving: "filter is_commit (concat (map resolving items)) = []"
  by (induction items) (simp_all add: resolving_def)

text \<open>
  What a successful resolution has done, in any world: reset with \<^verbatim>\<open>--merge\<close>; a pull,
  without rebase, of the branch named by \<^verbatim>\<open>repo.active_branch\<close>; one checkout with
  \<^verbatim>\<open>--theirs\<close> for every path that \<^verbatim>\<open>index.diff(None)\<close> reported after that pull, and for
  no other file; exactly one commit.
\<close>

lemma resolver_success_commands:
  assumes ok: "handle_merge_conflicts sys self s = (Inr True, s')"
  shows "\<exists>w1 branch w2 items new.
      git_reset sys ''--merge'' (world s) = (Inr (), w1)
    \<and> active_branch sys w1 = Inr branch
    \<and> pull sys branch False None w1 = (Inr (), w2)
    \<and> index_diff sys w2 = Inr items
    \<and> new = [GitReset ''--merge'', Pull branch False None] @ concat (map resolving items) @
        [IndexCommit ''Resolved merge conflicts automatically'',
         Log Info ''Merge conflicts resolved, repository updated to remote state.'',
         Log Info ([CHR 0xE2, CHR 0x9C, CHR 0x85] @ '' Successfully updated'')]
    \<and> trace s' = trace s @ new
    \<and> length (filter is_commit new) = 1"
proof -
  from resolve_steps_success [OF handle_merge_conflicts_True [OF ok]]
  obtain w1 branch w2 items s3 where
    st: "git_reset sys ''--merge'' (world s) = (Inr (), w1)"
        "active_branch sys w1 = Inr branch"
        "pull sys branch False None w1 = (Inr (), w2)"
        "index_diff sys w2 = Inr items" and
    co: "checkout_theirs sys items
        \<lparr>world = w2, trace = trace s @ [GitReset ''--merge'', Pull branch False None]\<rparr>
        = (Inr (), s3)" and
    tr: "trace s' = trace s3 @
        [IndexCommit ''Resolved merge conflicts automatically'',
         Log Info ''Merge conflicts resolved, repository updated to remote state.'',
         Log Info ([CHR 0xE2, CHR 0x9C, CHR 0x85] @ '' Successfully updated'')]"
    by blast
  from checkout_theirs_success [OF co]
  have t3: "trace s3 = trace s @ [GitReset ''--merge'', Pull branch False None]
              @ concat (map resolving items)"
    by simp
  have one: "length (filter is_commit
      ([GitReset ''--merge'', Pull branch False None] @ concat (map resolving items) @
        [IndexCommit ''Resolved merge conflicts automatically'',
         Log Info ''Merge conflicts resolved, repository updated to remote state.'',
         Log Info ([CHR 0xE2, CHR 0x9C, CHR 0x85] @ '' Successfully updated'')])) = 1"
    by (simp add: filter_commit_resolving)
  show ?thesis
    using st tr t3 one by (intro exI conjI) (assumption | rule refl | simp)+
qed





section \<open>The scheduler loop\<close>

lemma time_sleep_sleepable:
  "sleepable secs \<Longrightarrow> time_sleep secs s = (Inr (), s\<lparr>trace := trace s @ [Sleep secs]\<rparr>)"
  by (simp add: time_sleep_def sleepable_def emit_def)

lemma time_sleep_rejects:
  "\<not> sleepable secs \<Longrightarrow> \<exists>e. time_sleep secs s = (Inl (Exception e), s)"
  by (auto simp: time_sleep_def sleepable_def raise_def)

lemma cycle_signal:
  "sleepable (interval_hours self * 3600) \<Longrightarrow> cycle sys self s = (Inl sig, s') \<Longrightarrow>
     \<nexists>e. sig = Exception e"
  by (auto simp: cycle_def time_sleep_sleepable prog_defs
      split: sum.splits prod.splits signal.splits if_splits)

lemma run_signal:
  assumes ok: "sleepable (interval_hours self * 3600)"
  shows "run n sys self s = (Some sig, s') \<Longrightarrow> \<nexists>e. sig = Exception e"
proof (induction n arbitrary: s)
  case 0
  then show ?case by simp
next
  case (Suc n)
  show ?case
  proof (cases "cycle sys self s")
    case (Pair r s1)
    show ?thesis
    proof (cases r)
      case (Inl sg)
      with Pair Suc.prems have "sig = sg" by simp
      with cycle_signal [OF ok, of sys s sg s1] Pair Inl show ?thesis by simp
    next
      case (Inr u)
      with Pair Suc.prems have "run n sys self s1 = (Some sig, s')" by simp
      then show ?thesis by (rule Suc.IH)
    qed
  qed
qed

text \<open>
  C6 (as the code has it). When \<^verbatim>\<open>try_update\<close> raises an exception (an instance of
  \<^verbatim>\<open>Exception\<close>) in a turn of the loop, the exception is caught, logged and swallowed.
  Provided \<^verbatim>\<open>time.sleep\<close> accepts the configured interval, the loop then sleeps
  \<^verbatim>\<open>interval_hours * 3600\<close> seconds and goes on with the next turn (likewise, without
  the log line, when \<^verbatim>\<open>try_update\<close> returns), and it never ends with an exception. The
  sleep stands outside the \<^verbatim>\<open>try\<close>: with an interval that \<^verbatim>\<open>time.sleep\<close> rejects, the
  loop ends in that very turn, after the log line, with the exception of \<^verbatim>\<open>time.sleep\<close>.
\<close>

theorem run_survives_exception:
  "(\<forall>e s1. try_update sys self (s\<lparr>trace := trace s @ [Log Info ''Running autoupdate'']\<rparr>)
        = (Inl (Exception e), s1) \<and> sleepable (interval_hours self * 3600) \<longrightarrow>
      run (Suc n) sys self s =
        run n sys self (s1\<lparr>trace := trace s1 @
          [LogException ''Exception during autoupdate check'' e,
           Sleep (interval_hours self * 3600)]\<rparr>))
   \<and> (\<forall>s1. try_update sys self (s\<lparr>trace := trace s @ [Log Info ''Running autoupdate'']\<rparr>)
        = (Inr (), s1) \<and> sleepable (interval_hours self * 3600) \<longrightarrow>
      run (Suc n) sys self s =
        run n sys self (s1\<lparr>trace := trace s1 @ [Sleep (interval_hours self * 3600)]\<rparr>))
   \<and> (sleepable (interval_hours self * 3600) \<longrightarrow>
        (\<forall>e. fst (run n sys self s) \<noteq> Some (Exception e)))
   \<and> (\<forall>e s1. try_update sys self (s\<lparr>trace := trace s @ [Log Info ''Running autoupdate'']\<rparr>)
        = (Inl (Exception e), s1) \<and> \<not> sleepable (interval_hours self * 3600) \<longrightarrow>
      (\<exists>e'. run (Suc n) sys self s =
        (Some (Exception e'), s1\<lparr>trace := trace s1 @
          [LogException ''Exception during autoupdate check'' e]\<rparr>)))"
proof (intro conjI allI impI)
  fix e s1
  assume "try_update sys self (s\<lparr>trace := trace s @ [Log Info ''Running autoupdate'']\<rparr>)
        = (Inl (Exception e), s1) \<and> sleepable (interval_hours self * 3600)"
  then show "run (Suc n) sys self s =
        run n sys self (s1\<lparr>trace := trace s1 @
          [LogException ''Exception during autoupdate check'' e,
           Sleep (interval_hours self * 3600)]\<rparr>)"
    by (simp add: cycle_def time_sleep_sleepable prog_defs)
next
  fix s1
  assume "try_update sys self (s\<lparr>trace := trace s @ [Log Info ''Running autoupdate'']\<rparr>)
        = (Inr (), s1) \<and> sleepable (interval_hours self * 3600)"
  then show "run (Suc n) sys self s =
        run n sys self (s1\<lparr>trace := trace s1 @ [Sleep (interval_hours self * 3600)]\<rparr>)"
    by (simp add: cycle_def time_sleep_sleepable prog_defs)
next
  fix e
  assume ok: "sleepable (interval_hours self * 3600)"
  show "fst (run n sys self s) \<noteq> Some (Exception e)"
    using run_signal [OF ok, of n sys s "Exception e" "snd (run n sys self s)"]
    by (cases "run n sys self s") auto
next
  fix e s1
  assume h: "try_update sys self (s\<lparr>trace := trace s @ [Log Info ''Running autoupdate'']\<rparr>)
        = (Inl (Exception e), s1) \<and> \<not> sleepable (interval_hours self * 3600)"
  then obtain e' where
    "time_sleep (interval_hours self * 3600)
       (s1\<lparr>trace := trace s1 @ [LogException ''Exception during autoupdate check'' e]\<rparr>) =
     (Inl (Exception e'),
       s1\<lparr>trace := trace s1 @ [LogException ''Exception during autoupdate check'' e]\<rparr>)"
    using time_sleep_rejects by blast
  with h show "\<exists>e'. run (Suc n) sys self s =
        (Some (Exception e'), s1\<lparr>trace := trace s1 @
          [LogException ''Exception during autoupdate check'' e]\<rparr>)"
    by (simp add: cycle_def prog_defs)
qed

text \<open>
  The theorem at work: a remote version that does not parse makes the version check
  raise; the loop logs it, sleeps four hours and is still running.
\<close>

theorem run_survives_exception_witness:
  "fst (try_update sim_system (daemon None)
     ((start (sim_world ''main'' ''banana''))\<lparr>trace := [Log Info ''Running autoupdate'']\<rparr>))
     = Inl (Exception (OtherException ''InvalidVersion'' ''Invalid version: banana''))
   \<and> sleepable (interval_hours (daemon None) * 3600)
   \<and> run (Suc 0) sim_system (daemon None) (start (sim_world ''main'' ''banana'')) =
      (None, \<lparr>world = sim_world ''main'' ''banana'',
              trace = [Log Info ''Running autoupdate'', Fetch 5,
                       LogException ''Exception during autoupdate check''
                         (OtherException ''InvalidVersion'' ''Invalid version: banana''),
                       Sleep 14400]\<rparr>)"
proof -
  let ?s = "start (sim_world ''main'' ''banana'')"
  have h: "try_update sim_system (daemon None)
      (?s\<lparr>trace := trace ?s @ [Log Info ''Running autoupdate'']\<rparr>) =
     (Inl (Exception (OtherException ''InvalidVersion'' ''Invalid version: banana'')),
      \<lparr>world = sim_world ''main'' ''banana'',
       trace = [Log Info ''Running autoupdate'', Fetch 5]\<rparr>)"
    by code_simp
  have i: "interval_hours (daemon None) * 3600 = 14400" by code_simp
  have ok: "sleepable (interval_hours (daemon None) * 3600)" by code_simp
  from run_survives_exception [of sim_system "daemon None" ?s 0] h ok
  have "run (Suc 0) sim_system (daemon None) ?s =
     run 0 sim_system (daemon None)
       (\<lparr>world = sim_world ''main'' ''banana'',
         trace = [Log Info ''Running autoupdate'', Fetch 5]\<rparr>
        \<lparr>trace := trace \<lparr>world = sim_world ''main'' ''banana'',
            trace = [Log Info ''Running autoupdate'', Fetch 5]\<rparr> @
          [LogException ''Exception during autoupdate check''
             (OtherException ''InvalidVersion'' ''Invalid version: banana''),
           Sleep (interval_hours (daemon None) * 3600)]\<rparr>)"
    by blast
  with h i ok show ?thesis by (simp add: start_def)
qed

text \<open>
  C6 as stated fails: the daemon is constructed with an interval of 3000000 hours and the
  version check raises in the first turn. The exception is caught and logged, but the
  loop neither sleeps nor enters a second turn: \<^verbatim>\<open>time.sleep\<close> raises
  \<^verbatim>\<open>OverflowError\<close> outside the \<^verbatim>\<open>try\<close>, and that ends the loop.
\<close>

theorem run_sleep_overflow_counterexample:
  "run 2 sim_system (daemon_every 3000000 None) (start (sim_world ''main'' ''banana'')) =
     (Some (Exception (OtherException ''OverflowError''
        ''timestamp too large to convert to C PyTime_t'')),
      \<lparr>world = sim_world ''main'' ''banana'',
       trace = [Log Info ''Running autoupdate'', Fetch 5,
                LogException ''Exception during autoupdate check''
                  (OtherException ''InvalidVersion'' ''Invalid version: banana'')]\<rparr>)"
  by code_simp

section \<open>Restarting\<close>

text \<open>
  In the managed branch (\<^verbatim>\<open>PM2_HOME\<close> in the environment) and without a process name
  (\<^verbatim>\<open>None\<close> or empty), \<^verbatim>\<open>restart_app\<close> logs the error and calls \<^verbatim>\<open>sys.exit(1)\<close>; no
  restart command is issued and the world is untouched.
\<close>

lemma restart_app_without_identity:
  assumes "environ sys (world s) ''PM2_HOME''"
      and "process_name self = None \<or> process_name self = Some []"
  shows "restart_app sys self s =
     (Inl (SystemExit 1), s\<lparr>trace := trace s @
        [Log Info ''Restarting application...'',
         Log Error ''PM2 environment detected but process_name not provided'']\<rparr>)"
  using assms
  by (auto simp: restart_app_def sys_exit_def prog_defs)

text \<open>
  C7 is what the code attempts and misses. \<^verbatim>\<open>AutoUpdate\<close> is a \<^verbatim>\<open>threading.Thread\<close>
  and \<^verbatim>\<open>restart_app\<close> is reached only through \<^verbatim>\<open>run\<close>, the body of that thread. Under
  PM2 and without a process name the error is logged, no restart command is issued, and
  \<^verbatim>\<open>sys.exit(1)\<close> raises \<^verbatim>\<open>SystemExit(1)\<close>; the loop does not catch it, so it leaves
  \<^verbatim>\<open>run\<close>. That is all the code does: a \<^verbatim>\<open>SystemExit\<close> that leaves the body of a
  thread ends that thread, and the process goes on without its updater and without any
  exit status.
\<close>

theorem run_misconfigured_exit_ends_thread:
  "run 2 sim_system (daemon None) (start pm2_world) =
     (Some (SystemExit 1),
      \<lparr>world = pm2_world,
       trace = [Log Info ''Running autoupdate'', Fetch 5,
                Log Info ''Version check - remote_version: 0.3.0, local_version: 0.2.9'',
                Log Info (''Remote version (0.3.0) is higher than local version (0.2.9), ''
                  @ ''automatically updating...''),
                Log Debug ''Attempting to pull the latest changes...'',
                Pull ''main'' True (Some 10),
                Log Debug ''Successfully pulled the latest changes'',
                Log Info ''Attempting to update packages using 'uv sync --extra all'...'',
                CheckCall [''uv'', ''sync'', ''--extra'', ''all''] (Some 300),
                Log Info ''Successfully updated packages using 'uv sync --extra all'.'',
                Log Info ''Restarting application...'',
                Log Error ''PM2 environment detected but process_name not provided'']\<rparr>)"
  by code_simp

text \<open>
  C8. \<^verbatim>\<open>attempt_package_update\<close> always returns: when the dependency command raises,
  the exception is logged and swallowed. In \<^verbatim>\<open>try_update\<close>, once the version check and
  the update have returned true, \<^verbatim>\<open>restart_app\<close> runs in whatever state the dependency
  sync left.
\<close>

theorem attempt_package_update_never_raises:
  "(\<exists>s'. attempt_package_update sys s = (Inr (), s'))
   \<and> (\<forall>e w'. check_call sys [''uv'', ''sync'', ''--extra'', ''all''] (Some 300) (world s) = (Inl e, w') \<longrightarrow>
        attempt_package_update sys s =
          (Inr (), \<lparr>world = w', trace = trace s @
             [Log Info ''Attempting to update packages using 'uv sync --extra all'...'',
              CheckCall [''uv'', ''sync'', ''--extra'', ''all''] (Some 300),
              LogException ''Failed to synchronize dependencies with uv'' e]\<rparr>))
   \<and> (\<forall>s1 s2. check_version_updated sys self s = (Inr True, s1) \<and>
        attempt_update sys self s1 = (Inr True, s2) \<longrightarrow>
        try_update sys self s = restart_app sys self (snd (attempt_package_update sys s2)))"
proof (intro conjI allI impI)
  show "\<exists>s'. attempt_package_update sys s = (Inr (), s')"
    by (rule attempt_package_update_returns)
next
  fix e w'
  assume "check_call sys [''uv'', ''sync'', ''--extra'', ''all''] (Some 300) (world s) = (Inl e, w')"
  then show "attempt_package_update sys s =
          (Inr (), \<lparr>world = w', trace = trace s @
             [Log Info ''Attempting to update packages using 'uv sync --extra all'...'',
              CheckCall [''uv'', ''sync'', ''--extra'', ''all''] (Some 300),
              LogException ''Failed to synchronize dependencies with uv'' e]\<rparr>)"
    by (simp add: attempt_package_update_def prog_defs)
next
  fix s1 s2
  assume h: "check_version_updated sys self s = (Inr True, s1) \<and>
        attempt_update sys self s1 = (Inr True, s2)"
  obtain s3 where "attempt_package_update sys s2 = (Inr (), s3)"
    using attempt_package_update_returns by blast
  with h show "try_update sys self s = restart_app sys self (snd (attempt_package_update sys s2))"
    by (simp add: try_update_def andthen_def)
qed

text \<open>
  The theorem at work: \<^verbatim>\<open>uv\<close> is not installed, the failure is logged and the process
  is restarted all the same.
\<close>

theorem attempt_package_update_never_raises_witness:
  "check_call sim_system [''uv'', ''sync'', ''--extra'', ''all''] (Some 300) (world (start no_uv_world)) =
     (Inl (OtherException ''FileNotFoundError'' ''No such file or directory''), no_uv_world)
   \<and> attempt_package_update sim_system (start no_uv_world) =
      (Inr (), \<lparr>world = no_uv_world, trace =
         [Log Info ''Attempting to update packages using 'uv sync --extra all'...'',
          CheckCall [''uv'', ''sync'', ''--extra'', ''all''] (Some 300),
          LogException ''Failed to synchronize dependencies with uv''
            (OtherException ''FileNotFoundError'' ''No such file or directory'')]\<rparr>)
   \<and> fst (try_update sim_system (daemon None) (start no_uv_world)) = Inl ProcessReplaced"
proof -
  let ?s = "start no_uv_world"
  have c: "check_call sim_system [''uv'', ''sync'', ''--extra'', ''all''] (Some 300) (world ?s) =
     (Inl (OtherException ''FileNotFoundError'' ''No such file or directory''), no_uv_world)"
    by code_simp
  have "fst (check_version_updated sim_system (daemon None) ?s) = Inr True" by code_simp
  then have v: "check_version_updated sim_system (daemon None) ?s =
      (Inr True, snd (check_version_updated sim_system (daemon None) ?s))"
    by (simp add: prod_eq_iff)
  have "fst (attempt_update sim_system (daemon None)
      (snd (check_version_updated sim_system (daemon None) ?s))) = Inr True"
    by code_simp
  then have u: "attempt_update sim_system (daemon None)
      (snd (check_version_updated sim_system (daemon None) ?s)) =
      (Inr True, snd (attempt_update sim_system (daemon None)
         (snd (check_version_updated sim_system (daemon None) ?s))))"
    by (simp add: prod_eq_iff)
  have r: "fst (restart_app sim_system (daemon None)
      (snd (attempt_package_update sim_system
         (snd (attempt_update sim_system (daemon None)
            (snd (check_version_updated sim_system (daemon None) ?s))))))) = Inl ProcessReplaced"
    by code_simp
  from attempt_package_update_never_raises [of sim_system ?s "daemon None"] c v u r
  show ?thesis by (simp add: start_def)
qed

text \<open>
  C9. A \<^verbatim>\<open>SystemExit\<close> raised inside \<^verbatim>\<open>try_update\<close> ends \<^verbatim>\<open>run\<close> with that exit, in
  the very state it was raised in: the handler of the loop logs nothing and the loop does
  not sleep. In the managed branch with a process name, \<^verbatim>\<open>restart_app\<close> raises
  \<^verbatim>\<open>SystemExit(1)\<close> after the restart command and the pause of 5 seconds, and that exit
  ends the loop.
\<close>

theorem run_exit_propagates:
  "(\<forall>c s1. try_update sys self (s\<lparr>trace := trace s @ [Log Info ''Running autoupdate'']\<rparr>)
        = (Inl (SystemExit c), s1) \<longrightarrow>
      run (Suc n) sys self s = (Some (SystemExit c), s1))
   \<and> (\<forall>name w'. environ sys (world s) ''PM2_HOME'' \<and> process_name self = Some name \<and> name \<noteq> [] \<and>
        check_call sys [''pm2'', ''restart'', name] None (world s) = (Inr (), w') \<longrightarrow>
      restart_app sys self s =
        (Inl (SystemExit 1), \<lparr>world = w', trace = trace s @
           [Log Info ''Restarting application...'',
            Log Info (''Detected PM2 environment. Restarting process: '' @ name),
            CheckCall [''pm2'', ''restart'', name] None,
            Sleep 5]\<rparr>))
   \<and> (\<forall>c s1 s2 s3. check_version_updated sys self
          (s\<lparr>trace := trace s @ [Log Info ''Running autoupdate'']\<rparr>) = (Inr True, s1) \<and>
        attempt_update sys self s1 = (Inr True, s2) \<and>
        restart_app sys self (snd (attempt_package_update sys s2)) = (Inl (SystemExit c), s3) \<longrightarrow>
      run (Suc n) sys self s = (Some (SystemExit c), s3))"
proof (intro conjI allI impI)
  fix c s1
  assume "try_update sys self (s\<lparr>trace := trace s @ [Log Info ''Running autoupdate'']\<rparr>)
        = (Inl (SystemExit c), s1)"
  then show "run (Suc n) sys self s = (Some (SystemExit c), s1)"
    by (simp add: cycle_def prog_defs)
next
  fix name w'
  assume "environ sys (world s) ''PM2_HOME'' \<and> process_name self = Some name \<and> name \<noteq> [] \<and>
        check_call sys [''pm2'', ''restart'', name] None (world s) = (Inr (), w')"
  then show "restart_app sys self s =
        (Inl (SystemExit 1), \<lparr>world = w', trace = trace s @
           [Log Info ''Restarting application...'',
            Log Info (''Detected PM2 environment. Restarting process: '' @ name),
            CheckCall [''pm2'', ''restart'', name] None,
            Sleep 5]\<rparr>)"
    by (simp add: restart_app_def sys_exit_def time_sleep_def prog_defs)
next
  fix c s1 s2 s3
  assume h: "check_version_updated sys self
          (s\<lparr>trace := trace s @ [Log Info ''Running autoupdate'']\<rparr>) = (Inr True, s1) \<and>
        attempt_update sys self s1 = (Inr True, s2) \<and>
        restart_app sys self (snd (attempt_package_update sys s2)) = (Inl (SystemExit c), s3)"
  obtain s' where "attempt_package_update sys s2 = (Inr (), s')"
    using attempt_package_update_returns by blast
  with h have "try_update sys self (s\<lparr>trace := trace s @ [Log Info ''Running autoupdate'']\<rparr>)
        = (Inl (SystemExit c), s3)"
    by (simp add: try_update_def andthen_def)
  then show "run (Suc n) sys self s = (Some (SystemExit c), s3)"
    by (simp add: cycle_def prog_defs)
qed

text \<open>
  The theorem at work: a managed restart in the first turn ends the loop with status 1.
\<close>

theorem run_exit_propagates_witness:
  "fst (try_update sim_system (daemon (Some ''miner''))
     ((start pm2_world)\<lparr>trace := [Log Info ''Running autoupdate'']\<rparr>)) = Inl (SystemExit 1)
   \<and> fst (run (Suc 0) sim_system (daemon (Some ''miner'')) (start pm2_world)) =
       Some (SystemExit 1)"
proof -
  let ?s = "start pm2_world"
  let ?t = "try_update sim_system (daemon (Some ''miner''))
      (?s\<lparr>trace := trace ?s @ [Log Info ''Running autoupdate'']\<rparr>)"
  have f: "fst ?t = Inl (SystemExit 1)" by code_simp
  then have h: "?t = (Inl (SystemExit 1), snd ?t)" by (simp add: prod_eq_iff)
  from run_exit_propagates [of sim_system "daemon (Some ''miner'')" ?s 0] h
  have "run (Suc 0) sim_system (daemon (Some ''miner'')) ?s = (Some (SystemExit 1), snd ?t)"
    by blast
  with f show ?thesis by (simp add: start_def)
qed

text \<open>
  C10. When reloading the local version module raises, \<^verbatim>\<open>check_version_updated\<close> does
  not raise for it: after the error line of the handler it compares the remote version
  with the \<^verbatim>\<open>__version__\<close> imported when the process started, and its outcome is the
  outcome of that comparison. When the two version strings parse, the comparison
  completes and the result is whether the remote version is greater than the imported one.
\<close>

theorem check_version_updated_reload_fallback:
  assumes "get_remote_version sys self s = (Inr (Some rv), s1)" and "rv \<noteq> []"
      and "reload_version sys (world s1) = Inl e"
  shows "check_version_updated sys self s =
     compare_versions rv (imported_version sys)
       (s1\<lparr>trace := trace s1 @ [Log Error (''Failed to reload local version: '' @ exc_str e)]\<rparr>)
   \<and> (\<forall>r l. version_parse rv = Inr r \<and> version_parse (imported_version sys) = Inr l \<longrightarrow>
        fst (check_version_updated sys self s) = Inr (semver_less l r))"
proof -
  have eq: "check_version_updated sys self s =
     compare_versions rv (imported_version sys)
       (s1\<lparr>trace := trace s1 @ [Log Error (''Failed to reload local version: '' @ exc_str e)]\<rparr>)"
    using assms
    by (simp add: check_version_updated_def read_local_version_def prog_defs)
  show ?thesis
    by (simp add: eq compare_versions_result)
qed

text \<open>The theorem at work: the reload fails, the imported version is 0.1.0, the remote one 0.3.0.\<close>

theorem check_version_updated_reload_fallback_witness:
  "reload_version sim_system stale_world =
     Inl (OtherException ''ImportError'' ''cannot reload module'')
   \<and> imported_version sim_system = ''0.1.0''
   \<and> check_version_updated sim_system (daemon None) (start stale_world) =
      (Inr True,
       \<lparr>world = stale_world,
        trace = [Fetch 5,
                 Log Error ''Failed to reload local version: cannot reload module'',
                 Log Info ''Version check - remote_version: 0.3.0, local_version: 0.1.0'',
                 Log Info (''Remote version (0.3.0) is higher than local version (0.1.0), ''
                   @ ''automatically updating...'')]\<rparr>)"
proof -
  have g: "get_remote_version sim_system (daemon None) (start stale_world) =
     (Inr (Some ''0.3.0''), \<lparr>world = stale_world, trace = [Fetch 5]\<rparr>)"
    by code_simp
  have n: "''0.3.0'' \<noteq> []" by simp
  have r: "reload_version sim_system (world \<lparr>world = stale_world, trace = [Fetch 5]\<rparr>) =
     Inl (OtherException ''ImportError'' ''cannot reload module'')"
    by code_simp
  have i: "imported_version sim_system = ''0.1.0''" by code_simp
  have c: "compare_versions ''0.3.0'' ''0.1.0''
     \<lparr>world = stale_world,
      trace = [Fetch 5, Log Error ''Failed to reload local version: cannot reload module'']\<rparr> =
     (Inr True,
       \<lparr>world = stale_world,
        trace = [Fetch 5,
                 Log Error ''Failed to reload local version: cannot reload module'',
                 Log Info ''Version check - remote_version: 0.3.0, local_version: 0.1.0'',
                 Log Info (''Remote version (0.3.0) is higher than local version (0.1.0), ''
                   @ ''automatically updating...'')]\<rparr>)"
    by code_simp
  from check_version_updated_reload_fallback [OF g n r] i c r
  show ?thesis by simp
qed

end
